theory Spec2Isabelle
  imports Main
begin

section \<open>The render command of the command line interface\<close>

text \<open>
  The development embeds \<^verbatim>\<open>render\<close> of \<^verbatim>\<open>packages/cli/src/render.tsx\<close>. The function
  reads process-wide settings, probes the host, and drives four collaborators
  (\<^verbatim>\<open>bundle\<close>, \<^verbatim>\<open>getCompositions\<close>, \<^verbatim>\<open>renderFrames\<close>, \<^verbatim>\<open>stitchFramesToVideo\<close>).
  Everything it reads is a field of one of three records; everything it does is an
  event of a trace; the three ways it can end (\<^verbatim>\<open>process.exit\<close>, a thrown error, a
  normal return) are the constructors of \<open>result\<close>.
\<close>

subsection \<open>Data\<close>

datatype codec = H264 | H265 | VP8 | VP9

datatype image_format = Jpeg | Png

datatype pixel_format =
  Yuv420p | Yuv422p | Yuv444p | Yuv420p10le | Yuv422p10le | Yuv444p10le | Yuva420p

text \<open>
  The value held by the variable \<^verbatim>\<open>crf\<close>: \<^verbatim>\<open>null\<close>, a number, or any other JavaScript
  value (the test \<^verbatim>\<open>typeof crf !== 'number'\<close> tells the last two apart).
\<close>

datatype crf_value = CrfNull | CrfNumber int | CrfOther

record composition =
  comp_id :: string
  comp_width :: nat
  comp_height :: nat
  comp_fps :: nat
  durationInFrames :: nat

text \<open>What \<^verbatim>\<open>process.argv\<close>, \<^verbatim>\<open>process.env\<close> and the getters of \<^verbatim>\<open>Internals\<close> return.\<close>

record settings =
  source_file :: string
  cwd :: string
  getConcurrency :: "nat option"
  getShouldOutputImageSequence :: bool
  getOutputCodecOrUndefined :: "codec option"
  getUserPassedFileExtension :: "string option"
  getShouldOverwrite :: bool
  getUserProps :: string
  getQuality :: "nat option"
  getPixelFormat :: pixel_format
  env_DEBUG :: bool

text \<open>
  Helper functions that \<^verbatim>\<open>render\<close> imports and whose bodies are defined elsewhere; each is a
  parameter. A validator is the predicate "does not throw".
\<close>

record helpers =
  path_join :: "string \<Rightarrow> string \<Rightarrow> string"
  path_resolve :: "string \<Rightarrow> string \<Rightarrow> string"
  getFinalOutputCodec :: "codec option \<Rightarrow> string option \<Rightarrow> codec"
  getOutputFilename :: "codec \<Rightarrow> bool \<Rightarrow> string"
  getActualCrf :: "codec \<Rightarrow> crf_value"
  validateCrfNotANumber :: "codec \<Rightarrow> bool"
  getImageFormat :: "codec option \<Rightarrow> image_format"
  validateSelectedPixelFormatAndCodecCombination :: "pixel_format \<Rightarrow> codec \<Rightarrow> bool"
  validateSelectedPixelFormatAndImageFormatCombination ::
    "pixel_format \<Rightarrow> image_format \<Rightarrow> bool"
  getCompositionId :: "composition list \<Rightarrow> string"

record render_args =
  ra_config :: composition
  ra_parallelism :: "nat option"
  ra_compositionId :: string
  ra_outputDir :: string
  ra_userProps :: string
  ra_webpackBundle :: string
  ra_imageFormat :: image_format
  ra_quality :: "nat option"

record stitch_args =
  sa_dir :: string
  sa_width :: nat
  sa_height :: nat
  sa_fps :: nat
  sa_outputLocation :: string
  sa_force :: bool
  sa_imageFormat :: image_format
  sa_pixelFormat :: pixel_format
  sa_codec :: codec
  sa_crf :: int

text \<open>
  The host: the encoder binary, the file system and the four collaborators. A call that
  can fail returns \<open>None\<close> or \<open>False\<close> when it throws.
\<close>

record host =
  ffmpegHasFeature :: "string \<Rightarrow> bool"
  existsSync :: "string \<Rightarrow> bool"
  validateFfmpeg :: bool
  mkdirSync :: "string \<Rightarrow> bool"
  bundler :: "string \<Rightarrow> string option"
  getCompositions :: "string \<Rightarrow> composition list option"
  tmpdir :: string
  mkdtemp :: "string \<Rightarrow> string option"
  renderFrames :: "render_args \<Rightarrow> bool"
  stitchFramesToVideo :: "stitch_args \<Rightarrow> bool"
  rmdir :: "string \<Rightarrow> bool"

subsection \<open>Events and results\<close>

text \<open>
  The trace records what \<^verbatim>\<open>render\<close> itself does, in program order. The callbacks it hands
  to the collaborators (\<^verbatim>\<open>onStart\<close>, the progress updates) only write to the terminal and
  are run by the collaborators, so they are not events of their own. The imported helpers
  are taken to return; the calls that can throw have a failing branch.
\<close>

datatype message =
    DetectedCodecAndSequence
  | NoCodecForImageSequences
  | RemoveOneOfTheFlags
  | Vp8WithoutLibvpx
  | SwitchFfmpegBinary
  | H265WithoutGpl
  | H265WithoutLibx265
  | RecompileFfmpeg
  | FileAlreadyExists string
  | BundlingVideo nat
  | StitchingFrames nat
  | CleaningUp
  | VideoReady
  | ImageSequenceReady
  | OutputLocation string

datatype bar = BundlingBar | RenderBar | StitchingBar

datatype event =
    ConsoleError message
  | ConsoleLog message
  | StdoutWrite message
  | BarStart bar nat
  | BarStop bar
  | CallFfmpegHasFeature string
  | CallValidateFfmpeg
  | CallGetActualCrf codec
  | CallValidateCrf crf_value codec
  | CallValidatePixelFormatAndCodec pixel_format codec
  | CallValidatePixelFormatAndImageFormat pixel_format image_format
  | MkdirSync string
  | CallBundle string
  | CallGetCompositions string
  | Mkdtemp string
  | CallRenderFrames render_args
  | RenderFramesReturned
  | LogPerf
  | CallStitchFramesToVideo stitch_args
  | StitchFramesReturned
  | Rmdir string

datatype collaborator =
    ValidateFfmpegCall | MkdirCall | BundleCall | GetCompositionsCall | MkdtempCall
  | RenderFramesCall | StitchCall | RmdirCall

datatype failure =
    CompositionNotFound string
  | CrfNotANumber
  | InvalidCrf
  | InvalidPixelFormatForCodec
  | InvalidPixelFormatForImageFormat
  | CollaboratorFailed collaborator

datatype result = Done | Exited nat | Failed failure

type_synonym run = "event list \<times> result"

definition emit :: "event list \<Rightarrow> run \<Rightarrow> run" where
  "emit es r = (es @ fst r, snd r)"

definition halt :: "result \<Rightarrow> run" where
  "halt r = ([], r)"

subsection \<open>The CRF validator\<close>

text \<open>
  Modelled from the spec: the body of \<^verbatim>\<open>Internals.validateSelectedCrfAndCodecCombination\<close>
  is not among the sources; the ranges are those of the configuration documentation
  (\<^verbatim>\<open>setCrf()\<close>: h264 0-51, h265 0-51, vp8 4-63, vp9 0-63) and an out-of-range value is
  fatal. The predicate is "the validator does not throw".
\<close>

fun getValidCrfRanges :: "codec \<Rightarrow> int \<times> int" where
  "getValidCrfRanges H264 = (0, 51)"
| "getValidCrfRanges H265 = (0, 51)"
| "getValidCrfRanges VP8 = (4, 63)"
| "getValidCrfRanges VP9 = (0, 63)"

definition validateSelectedCrfAndCodecCombination :: "int \<Rightarrow> codec \<Rightarrow> bool" where
  "validateSelectedCrfAndCodecCombination crf c =
     (\<not> (crf < fst (getValidCrfRanges c) \<or> crf > snd (getValidCrfRanges c)))"

subsection \<open>Values computed by \<^verbatim>\<open>render\<close>\<close>

definition fullPath :: "settings \<Rightarrow> helpers \<Rightarrow> string" where
  "fullPath s l = path_join l (cwd s) (source_file s)"

definition codec_of :: "settings \<Rightarrow> helpers \<Rightarrow> codec" where
  "codec_of s l =
     getFinalOutputCodec l (getOutputCodecOrUndefined s) (getUserPassedFileExtension s)"

definition outputFile :: "settings \<Rightarrow> helpers \<Rightarrow> string" where
  "outputFile s l = getOutputFilename l (codec_of s l) (getShouldOutputImageSequence s)"

definition absoluteOutputFile :: "settings \<Rightarrow> helpers \<Rightarrow> string" where
  "absoluteOutputFile s l = path_resolve l (cwd s) (outputFile s l)"

definition crf_of :: "settings \<Rightarrow> helpers \<Rightarrow> crf_value" where
  "crf_of s l =
     (if getShouldOutputImageSequence s then CrfNull else getActualCrf l (codec_of s l))"

definition imageFormat_of :: "settings \<Rightarrow> helpers \<Rightarrow> image_format" where
  "imageFormat_of s l =
     getImageFormat l (if getShouldOutputImageSequence s then None else Some (codec_of s l))"

definition steps :: "settings \<Rightarrow> nat" where
  "steps s = (if getShouldOutputImageSequence s then 2 else 3)"

definition tmp_prefix :: "helpers \<Rightarrow> host \<Rightarrow> string" where
  "tmp_prefix l h = path_join l (tmpdir h) ''react-motion-render''"

definition render_args_of ::
  "settings \<Rightarrow> helpers \<Rightarrow> string \<Rightarrow> composition \<Rightarrow> string \<Rightarrow> string \<Rightarrow> render_args" where
  "render_args_of s l bundled config compositionId outputDir =
     \<lparr> ra_config = config,
       ra_parallelism = getConcurrency s,
       ra_compositionId = compositionId,
       ra_outputDir = outputDir,
       ra_userProps = getUserProps s,
       ra_webpackBundle = bundled,
       ra_imageFormat = imageFormat_of s l,
       ra_quality = getQuality s \<rparr>"

definition stitch_args_of ::
  "settings \<Rightarrow> helpers \<Rightarrow> composition \<Rightarrow> string \<Rightarrow> int \<Rightarrow> stitch_args" where
  "stitch_args_of s l config outputDir crf =
     \<lparr> sa_dir = outputDir,
       sa_width = comp_width config,
       sa_height = comp_height config,
       sa_fps = comp_fps config,
       sa_outputLocation = absoluteOutputFile s l,
       sa_force = getShouldOverwrite s,
       sa_imageFormat = imageFormat_of s l,
       sa_pixelFormat = getPixelFormat s,
       sa_codec = codec_of s l,
       sa_crf = crf \<rparr>"

subsection \<open>The stages of \<^verbatim>\<open>render\<close>, last first\<close>

text \<open>
  Lines 203 to 212 and 216: both removals are started, then both are awaited; the output
  location is printed last.
\<close>

definition cleanup_stage :: "settings \<Rightarrow> helpers \<Rightarrow> host \<Rightarrow> string \<Rightarrow> string \<Rightarrow> run" where
  "cleanup_stage s l h bundled outputDir =
     emit [ConsoleLog CleaningUp, Rmdir outputDir, Rmdir bundled]
       (if rmdir h outputDir \<and> rmdir h bundled
        then emit [ConsoleLog VideoReady,
                   ConsoleLog (OutputLocation (absoluteOutputFile s l))] (halt Done)
        else halt (Failed (CollaboratorFailed RmdirCall)))"

text \<open>Lines 172 to 216.\<close>

definition stitching_stage ::
  "settings \<Rightarrow> helpers \<Rightarrow> host \<Rightarrow> string \<Rightarrow> composition \<Rightarrow> string \<Rightarrow> run" where
  "stitching_stage s l h bundled config outputDir =
     (if \<not> getShouldOutputImageSequence s then
        emit [StdoutWrite (StitchingFrames (steps s))]
          (case crf_of s l of
             CrfNumber n \<Rightarrow>
               emit [BarStart StitchingBar (durationInFrames config),
                     CallStitchFramesToVideo (stitch_args_of s l config outputDir n)]
                 (if stitchFramesToVideo h (stitch_args_of s l config outputDir n)
                  then emit [StitchFramesReturned, BarStop StitchingBar]
                         (cleanup_stage s l h bundled outputDir)
                  else halt (Failed (CollaboratorFailed StitchCall)))
           | _ \<Rightarrow> halt (Failed CrfNotANumber))
      else
        emit [ConsoleLog ImageSequenceReady,
              ConsoleLog (OutputLocation (absoluteOutputFile s l))] (halt Done))"

text \<open>Lines 141 to 171.\<close>

definition rendering_stage ::
  "settings \<Rightarrow> helpers \<Rightarrow> host \<Rightarrow> string \<Rightarrow> composition \<Rightarrow> string \<Rightarrow> string \<Rightarrow> run" where
  "rendering_stage s l h bundled config compositionId outputDir =
     emit [CallRenderFrames (render_args_of s l bundled config compositionId outputDir)]
       (if renderFrames h (render_args_of s l bundled config compositionId outputDir)
        then emit ([RenderFramesReturned, BarStop RenderBar]
                   @ (if env_DEBUG s then [LogPerf] else []))
               (stitching_stage s l h bundled config outputDir)
        else halt (Failed (CollaboratorFailed RenderFramesCall)))"

text \<open>Lines 136 to 139.\<close>

definition frame_dir_stage ::
  "settings \<Rightarrow> helpers \<Rightarrow> host \<Rightarrow> string \<Rightarrow> composition \<Rightarrow> string \<Rightarrow> run" where
  "frame_dir_stage s l h bundled config compositionId =
     (if getShouldOutputImageSequence s
      then rendering_stage s l h bundled config compositionId (absoluteOutputFile s l)
      else emit [Mkdtemp (tmp_prefix l h)]
             (case mkdtemp h (tmp_prefix l h) of
                None \<Rightarrow> halt (Failed (CollaboratorFailed MkdtempCall))
              | Some outputDir \<Rightarrow>
                  rendering_stage s l h bundled config compositionId outputDir))"

text \<open>Lines 110 to 134.\<close>

definition packaging_stage :: "settings \<Rightarrow> helpers \<Rightarrow> host \<Rightarrow> run" where
  "packaging_stage s l h =
     emit [StdoutWrite (BundlingVideo (steps s)), BarStart BundlingBar 100,
           CallBundle (fullPath s l)]
       (case bundler h (fullPath s l) of
          None \<Rightarrow> halt (Failed (CollaboratorFailed BundleCall))
        | Some bundled \<Rightarrow>
            emit [CallGetCompositions bundled]
              (case getCompositions h bundled of
                 None \<Rightarrow> halt (Failed (CollaboratorFailed GetCompositionsCall))
               | Some comps \<Rightarrow>
                   emit [BarStop BundlingBar]
                     (case find (\<lambda>c. comp_id c = getCompositionId l comps) comps of
                        None \<Rightarrow> halt (Failed (CompositionNotFound (getCompositionId l comps)))
                      | Some config \<Rightarrow>
                          frame_dir_stage s l h bundled config (getCompositionId l comps))))"

text \<open>Lines 105 to 109.\<close>

definition sequence_dir_stage :: "settings \<Rightarrow> helpers \<Rightarrow> host \<Rightarrow> run" where
  "sequence_dir_stage s l h =
     (if getShouldOutputImageSequence s
      then emit [MkdirSync (absoluteOutputFile s l)]
             (if mkdirSync h (absoluteOutputFile s l)
              then packaging_stage s l h
              else halt (Failed (CollaboratorFailed MkdirCall)))
      else packaging_stage s l h)"

text \<open>Lines 95 to 104.\<close>

definition pixel_format_stage :: "settings \<Rightarrow> helpers \<Rightarrow> host \<Rightarrow> run" where
  "pixel_format_stage s l h =
     emit [CallValidatePixelFormatAndCodec (getPixelFormat s) (codec_of s l)]
       (if validateSelectedPixelFormatAndCodecCombination l (getPixelFormat s) (codec_of s l)
        then emit [CallValidatePixelFormatAndImageFormat (getPixelFormat s) (imageFormat_of s l)]
               (if validateSelectedPixelFormatAndImageFormatCombination l
                     (getPixelFormat s) (imageFormat_of s l)
                then sequence_dir_stage s l h
                else halt (Failed InvalidPixelFormatForImageFormat))
        else halt (Failed InvalidPixelFormatForCodec))"

text \<open>Lines 91 to 94.\<close>

definition crf_stage :: "settings \<Rightarrow> helpers \<Rightarrow> host \<Rightarrow> run" where
  "crf_stage s l h =
     emit (if getShouldOutputImageSequence s then [] else [CallGetActualCrf (codec_of s l)])
       (case crf_of s l of
          CrfNull \<Rightarrow> pixel_format_stage s l h
        | CrfNumber n \<Rightarrow>
            emit [CallValidateCrf (CrfNumber n) (codec_of s l)]
              (if validateSelectedCrfAndCodecCombination n (codec_of s l)
               then pixel_format_stage s l h
               else halt (Failed InvalidCrf))
        | CrfOther \<Rightarrow>
            emit [CallValidateCrf CrfOther (codec_of s l)]
              (if validateCrfNotANumber l (codec_of s l)
               then pixel_format_stage s l h
               else halt (Failed InvalidCrf)))"

text \<open>Lines 88 to 90.\<close>

definition ffmpeg_stage :: "settings \<Rightarrow> helpers \<Rightarrow> host \<Rightarrow> run" where
  "ffmpeg_stage s l h =
     (if \<not> getShouldOutputImageSequence s
      then emit [CallValidateFfmpeg]
             (if validateFfmpeg h then crf_stage s l h
              else halt (Failed (CollaboratorFailed ValidateFfmpegCall)))
      else crf_stage s l h)"

text \<open>Lines 76 to 87.\<close>

definition overwrite_stage :: "settings \<Rightarrow> helpers \<Rightarrow> host \<Rightarrow> run" where
  "overwrite_stage s l h =
     (if existsSync h (absoluteOutputFile s l) \<and> \<not> getShouldOverwrite s
      then emit [ConsoleLog (FileAlreadyExists (absoluteOutputFile s l))] (halt (Exited 1))
      else ffmpeg_stage s l h)"

text \<open>Lines 51 to 74: the operator \<^verbatim>\<open>&&\<close> probes the binary only for the selected codec.\<close>

definition codec_warnings :: "settings \<Rightarrow> helpers \<Rightarrow> host \<Rightarrow> event list" where
  "codec_warnings s l h =
     (if codec_of s l = VP8
      then CallFfmpegHasFeature ''enable-libvpx''
           # (if \<not> ffmpegHasFeature h ''enable-libvpx''
              then [ConsoleLog Vp8WithoutLibvpx, ConsoleLog SwitchFfmpegBinary] else [])
      else [])
     @ (if codec_of s l = H265
        then CallFfmpegHasFeature ''enable-gpl''
             # (if \<not> ffmpegHasFeature h ''enable-gpl''
                then [ConsoleLog H265WithoutGpl, ConsoleLog RecompileFfmpeg] else [])
        else [])
     @ (if codec_of s l = H265
        then CallFfmpegHasFeature ''enable-libx265''
             # (if \<not> ffmpegHasFeature h ''enable-libx265''
                then [ConsoleLog H265WithoutLibx265, ConsoleLog RecompileFfmpeg] else [])
        else [])"

text \<open>Lines 25 to 50.\<close>

definition render :: "settings \<Rightarrow> helpers \<Rightarrow> host \<Rightarrow> run" where
  "render s l h =
     (if getShouldOutputImageSequence s \<and> getOutputCodecOrUndefined s \<noteq> None
      then emit [ConsoleError DetectedCodecAndSequence,
                 ConsoleError NoCodecForImageSequences,
                 ConsoleError RemoveOneOfTheFlags] (halt (Exited 1))
      else emit (codec_warnings s l h) (overwrite_stage s l h))"

definition trace :: "run \<Rightarrow> event list" where
  "trace r = fst r"

definition outcome :: "run \<Rightarrow> result" where
  "outcome r = snd r"

subsection \<open>Classes of events\<close>

text \<open>The four external collaborators: packaging, composition resolution, frame rendering, encoding.\<close>

fun is_collaborator_call :: "event \<Rightarrow> bool" where
  "is_collaborator_call (CallBundle p) = True"
| "is_collaborator_call (CallGetCompositions p) = True"
| "is_collaborator_call (CallRenderFrames a) = True"
| "is_collaborator_call (CallStitchFramesToVideo a) = True"
| "is_collaborator_call e = False"

text \<open>
  Events that create, fill or remove something on storage. The packaging collaborator
  creates the artifact directory that its call returns.
\<close>

fun touches_storage :: "event \<Rightarrow> bool" where
  "touches_storage (MkdirSync p) = True"
| "touches_storage (Mkdtemp p) = True"
| "touches_storage (Rmdir p) = True"
| "touches_storage (CallBundle p) = True"
| "touches_storage (CallRenderFrames a) = True"
| "touches_storage (CallStitchFramesToVideo a) = True"
| "touches_storage e = False"




fun is_feature_warning :: "event \<Rightarrow> bool" where
  "is_feature_warning (ConsoleLog Vp8WithoutLibvpx) = True"
| "is_feature_warning (ConsoleLog SwitchFfmpegBinary) = True"
| "is_feature_warning (ConsoleLog H265WithoutGpl) = True"
| "is_feature_warning (ConsoleLog H265WithoutLibx265) = True"
| "is_feature_warning (ConsoleLog RecompileFfmpeg) = True"
| "is_feature_warning e = False"

fun is_encoder_call :: "event \<Rightarrow> bool" where
  "is_encoder_call (CallStitchFramesToVideo a) = True"
| "is_encoder_call e = False"

fun is_get_compositions :: "event \<Rightarrow> bool" where
  "is_get_compositions (CallGetCompositions p) = True"
| "is_get_compositions e = False"

fun is_get_actual_crf :: "event \<Rightarrow> bool" where
  "is_get_actual_crf (CallGetActualCrf c) = True"
| "is_get_actual_crf e = False"


text \<open>The two ways a directory for frames comes into being (lines 106 and 139).\<close>

fun creates_frame_dir :: "event \<Rightarrow> bool" where
  "creates_frame_dir (Mkdtemp p) = True"
| "creates_frame_dir (MkdirSync p) = True"
| "creates_frame_dir e = False"

definition is_rendering_work :: "event \<Rightarrow> bool" where
  "is_rendering_work e \<longleftrightarrow> is_collaborator_call e \<or> touches_storage e"

subsection \<open>A concrete run\<close>

text \<open>
  An h264 video of one composition of thirty frames, on a host where every call
  succeeds; the variations below change one field each.
\<close>

definition example_settings :: settings where
  "example_settings =
     \<lparr> source_file = ''src/index.tsx'', cwd = ''/project'', getConcurrency = Some 4,
       getShouldOutputImageSequence = False, getOutputCodecOrUndefined = Some H264,
       getUserPassedFileExtension = Some ''mp4'', getShouldOverwrite = False,
       getUserProps = ''{}'', getQuality = None, getPixelFormat = Yuv420p,
       env_DEBUG = False \<rparr>"

definition example_helpers :: helpers where
  "example_helpers =
     \<lparr> path_join = (\<lambda>a b. a @ ''/'' @ b),
       path_resolve = (\<lambda>a b. a @ ''/'' @ b),
       getFinalOutputCodec = (\<lambda>c ext. case c of Some x \<Rightarrow> x | None \<Rightarrow> H264),
       getOutputFilename = (\<lambda>c sq. if sq then ''out'' else ''out.mp4''),
       getActualCrf = (\<lambda>c. CrfNumber 18),
       validateCrfNotANumber = (\<lambda>c. True),
       getImageFormat = (\<lambda>c. Jpeg),
       validateSelectedPixelFormatAndCodecCombination = (\<lambda>p c. True),
       validateSelectedPixelFormatAndImageFormatCombination = (\<lambda>p i. True),
       getCompositionId = (\<lambda>cs. ''HelloWorld'') \<rparr>"

definition example_composition :: composition where
  "example_composition =
     \<lparr> comp_id = ''HelloWorld'', comp_width = 1920, comp_height = 1080, comp_fps = 30,
       durationInFrames = 30 \<rparr>"

definition example_host :: host where
  "example_host =
     \<lparr> ffmpegHasFeature = (\<lambda>f. False),
       existsSync = (\<lambda>p. False),
       validateFfmpeg = True,
       mkdirSync = (\<lambda>p. True),
       bundler = (\<lambda>p. Some ''/tmp/bundle''),
       getCompositions = (\<lambda>b. Some [example_composition]),
       tmpdir = ''/tmp'',
       mkdtemp = (\<lambda>p. Some (p @ ''X'')),
       renderFrames = (\<lambda>a. True),
       stitchFramesToVideo = (\<lambda>a. True),
       rmdir = (\<lambda>p. True) \<rparr>"

text \<open>The same host, except that the frame-rendering collaborator throws.\<close>

definition failing_render_host :: host where
  "failing_render_host = example_host\<lparr>renderFrames := (\<lambda>a. False)\<rparr>"

text \<open>The same host, except that every path exists already.\<close>

definition existing_output_host :: host where
  "existing_output_host = example_host\<lparr>existsSync := (\<lambda>p. True)\<rparr>"

text \<open>The same settings, except that an image sequence is requested and no codec is set.\<close>

definition sequence_settings :: settings where
  "sequence_settings =
     example_settings\<lparr>getShouldOutputImageSequence := True, getOutputCodecOrUndefined := None\<rparr>"

text \<open>The same helpers, except that \<^verbatim>\<open>getActualCrf\<close> breaks its declared type and returns \<^verbatim>\<open>null\<close>.\<close>

definition null_crf_helpers :: helpers where
  "null_crf_helpers = example_helpers\<lparr>getActualCrf := (\<lambda>c. CrfNull)\<rparr>"

subsection \<open>Relations between traces\<close>

text \<open>Two runs that end alike and differ at most in the emission of performance counters.\<close>

definition same_but_perf :: "run \<Rightarrow> run \<Rightarrow> bool" where
  "same_but_perf r r' \<longleftrightarrow>
     outcome r = outcome r' \<and>
     filter (\<lambda>e. e \<noteq> LogPerf) (trace r) = filter (\<lambda>e. e \<noteq> LogPerf) (trace r')"

text \<open>
  \<open>guarded q p xs\<close>: reading \<open>xs\<close> from the left, no element satisfying \<open>q\<close> is met until an
  element satisfying \<open>p\<close> (and not \<open>q\<close>) has been met.
\<close>

fun guarded :: "('a \<Rightarrow> bool) \<Rightarrow> ('a \<Rightarrow> bool) \<Rightarrow> 'a list \<Rightarrow> bool" where
  "guarded q p [] = True"
| "guarded q p (x # xs) = (\<not> q x \<and> (p x \<or> guarded q p xs))"

section \<open>Properties\<close>

lemmas value_defs =
  fullPath_def codec_of_def outputFile_def absoluteOutputFile_def crf_of_def
  imageFormat_of_def steps_def tmp_prefix_def render_args_of_def stitch_args_of_def

lemmas stage_defs =
  render_def codec_warnings_def overwrite_stage_def ffmpeg_stage_def crf_stage_def
  pixel_format_stage_def sequence_dir_stage_def packaging_stage_def frame_dir_stage_def
  rendering_stage_def stitching_stage_def cleanup_stage_def

lemmas example_defs =
  example_settings_def example_helpers_def example_host_def example_composition_def
  failing_render_host_def existing_output_host_def sequence_settings_def
  null_crf_helpers_def

lemmas tail_defs =
  packaging_stage_def frame_dir_stage_def rendering_stage_def stitching_stage_def
  cleanup_stage_def

lemmas front_defs =
  overwrite_stage_def ffmpeg_stage_def crf_stage_def pixel_format_stage_def
  sequence_dir_stage_def

subsection \<open>Traces and outcomes of composed runs\<close>

lemma trace_emit [simp]: "trace (emit es r) = es @ trace r"
  by (simp add: trace_def emit_def)

lemma outcome_emit [simp]: "outcome (emit es r) = outcome r"
  by (simp add: outcome_def emit_def)

lemma trace_halt [simp]: "trace (halt r) = []"
  by (simp add: trace_def halt_def)

lemma outcome_halt [simp]: "outcome (halt r) = r"
  by (simp add: outcome_def halt_def)

lemma codec_warnings_quiet:
  "e \<in> set (codec_warnings s l h) \<Longrightarrow>
     (\<exists>f. e = CallFfmpegHasFeature f) \<or> is_feature_warning e"
  by (auto simp: codec_warnings_def split: if_splits)

lemma guarded_append:
  "\<forall>x \<in> set xs. \<not> q x \<and> \<not> p x \<Longrightarrow> guarded q p (xs @ ys) = guarded q p ys"
  by (induction xs) auto

lemma guarded_free: "\<forall>x \<in> set xs. \<not> q x \<Longrightarrow> guarded q p xs"
  by (induction xs) auto

lemma guarded_nth:
  "guarded q p xs \<Longrightarrow> i < length xs \<Longrightarrow> q (xs ! i) \<Longrightarrow> \<exists>j<i. p (xs ! j)"
proof (induction xs arbitrary: i)
  case Nil
  then show ?case by simp
next
  case (Cons x xs)
  show ?case
  proof (cases i)
    case 0
    with Cons.prems show ?thesis by simp
  next
    case (Suc k)
    show ?thesis
    proof (cases "p x")
      case True
      then have "p ((x # xs) ! 0)" by simp
      with Suc show ?thesis by blast
    next
      case False
      with Cons.prems Suc have "guarded q p xs" "k < length xs" "q (xs ! k)" by auto
      from Cons.IH [OF this] obtain j where "j < k" "p (xs ! j)" by blast
      then have "Suc j < i" "p ((x # xs) ! Suc j)" using Suc by auto
      then show ?thesis by blast
    qed
  qed
qed

subsection \<open>The example run\<close>

lemma example_video: "\<not> getShouldOutputImageSequence example_settings"
  by (simp add: example_settings_def)


lemma example_outcome:
  "outcome (render example_settings example_helpers example_host) = Done"
  by (simp add: stage_defs value_defs example_defs validateSelectedCrfAndCodecCombination_def)

subsection \<open>Conflicting flags\<close>

text \<open>
  C1. When the image-sequence flag and an explicit codec are both set, \<^verbatim>\<open>render\<close> prints the
  three lines of the configuration error and exits with code 1. The trace holds nothing
  else: no call of the packaging, composition-resolution, frame-rendering or encoding
  collaborator, and no event that creates a directory.
\<close>

theorem conflicting_flags_rejected_first:
  assumes "getShouldOutputImageSequence s" and "getOutputCodecOrUndefined s = Some c"
  shows "render s l h =
           ([ConsoleError DetectedCodecAndSequence, ConsoleError NoCodecForImageSequences,
             ConsoleError RemoveOneOfTheFlags], Exited 1)
         \<and> outcome (render s l h) = Exited 1
         \<and> (\<forall>e \<in> set (trace (render s l h)).
               \<not> is_collaborator_call e \<and> \<not> touches_storage e)"
  using assms by (simp add: render_def emit_def halt_def trace_def outcome_def)

theorem conflicting_flags_rejected_first_witness:
  "getShouldOutputImageSequence (example_settings\<lparr>getShouldOutputImageSequence := True\<rparr>)
   \<and> getOutputCodecOrUndefined (example_settings\<lparr>getShouldOutputImageSequence := True\<rparr>)
       = Some H264
   \<and> render (example_settings\<lparr>getShouldOutputImageSequence := True\<rparr>)
        example_helpers example_host =
       ([ConsoleError DetectedCodecAndSequence, ConsoleError NoCodecForImageSequences,
         ConsoleError RemoveOneOfTheFlags], Exited 1)"
  using conflicting_flags_rejected_first
    [of "example_settings\<lparr>getShouldOutputImageSequence := True\<rparr>" H264
        example_helpers example_host]
  by (simp add: example_settings_def)

subsection \<open>Existing output\<close>

text \<open>
  C7. When the resolved absolute output path exists and the overwrite flag is off, the run
  exits with code 1. Its whole trace is the three lines of the flag conflict (when that
  earlier check already stopped it) or the advisory codec probes followed by the one line
  that reports the existing file: no collaborator is called, the encoder-availability
  check is not reached, nothing on storage is created, written or removed, and nothing is
  attempted a second time.
\<close>

theorem existing_output_exits_before_collaborators:
  assumes "existsSync h (absoluteOutputFile s l)" and "\<not> getShouldOverwrite s"
  shows "outcome (render s l h) = Exited 1
    \<and> trace (render s l h) =
        (if getShouldOutputImageSequence s \<and> getOutputCodecOrUndefined s \<noteq> None
         then [ConsoleError DetectedCodecAndSequence, ConsoleError NoCodecForImageSequences,
               ConsoleError RemoveOneOfTheFlags]
         else codec_warnings s l h @ [ConsoleLog (FileAlreadyExists (absoluteOutputFile s l))])
    \<and> (\<forall>e \<in> set (trace (render s l h)).
          \<not> is_collaborator_call e \<and> \<not> touches_storage e \<and> e \<noteq> CallValidateFfmpeg)"
proof -
  have quiet: "\<not> is_collaborator_call e \<and> \<not> touches_storage e \<and> e \<noteq> CallValidateFfmpeg"
    if "e \<in> set (codec_warnings s l h)" for e
    using codec_warnings_quiet [OF that] by (cases e) auto
  show ?thesis
    using assms quiet by (auto simp: render_def overwrite_stage_def)
qed

theorem existing_output_exits_before_collaborators_witness:
  "existsSync (example_host\<lparr>existsSync := (\<lambda>p. p = ''/project/out.mp4'')\<rparr>)
     (absoluteOutputFile example_settings example_helpers)
   \<and> \<not> getShouldOverwrite example_settings
   \<and> outcome (render example_settings example_helpers
        (example_host\<lparr>existsSync := (\<lambda>p. p = ''/project/out.mp4'')\<rparr>)) = Exited 1"
  using existing_output_exits_before_collaborators
    [of "example_host\<lparr>existsSync := (\<lambda>p. p = ''/project/out.mp4'')\<rparr>"
        example_settings example_helpers]
  by (simp add: example_defs value_defs)

subsection \<open>Advisory codec warnings\<close>

lemma feature_values [simp]:
  "tmp_prefix l (h\<lparr>ffmpegHasFeature := f\<rparr>) = tmp_prefix l h"
  by (simp add: tmp_prefix_def)

lemma feature_packaging:
  "packaging_stage s l (h\<lparr>ffmpegHasFeature := f\<rparr>) = packaging_stage s l h"
  by (simp add: tail_defs cong: option.case_cong crf_value.case_cong if_cong)

lemma feature_overwrite:
  "overwrite_stage s l (h\<lparr>ffmpegHasFeature := f\<rparr>) = overwrite_stage s l h"
  by (simp add: front_defs feature_packaging cong: option.case_cong crf_value.case_cong if_cong)

lemma warnings_filtered:
  "filter (\<lambda>e. \<not> is_feature_warning e) (codec_warnings s l h) =
     (if codec_of s l = VP8 then [CallFfmpegHasFeature ''enable-libvpx''] else [])
     @ (if codec_of s l = H265
        then [CallFfmpegHasFeature ''enable-gpl'', CallFfmpegHasFeature ''enable-libx265'']
        else [])"
  by (simp add: codec_warnings_def)

text \<open>
  C6. What the encoder build reports about its optional features changes neither the outcome
  of a run nor its trace, the warning lines apart. Past the flag conflict, \<^verbatim>\<open>render\<close> is the
  codec check followed by the rest of the pipeline; the check only probes the binary and
  logs, the rest does not depend on the features, and a missing feature of the selected
  codec (vp8: enable-libvpx; h265: enable-gpl, enable-libx265) does put its warning in
  the trace.
\<close>

theorem codec_feature_check_is_advisory:
  "outcome (render s l (h\<lparr>ffmpegHasFeature := f\<rparr>)) = outcome (render s l h)
   \<and> filter (\<lambda>e. \<not> is_feature_warning e) (trace (render s l (h\<lparr>ffmpegHasFeature := f\<rparr>)))
     = filter (\<lambda>e. \<not> is_feature_warning e) (trace (render s l h))
   \<and> (\<not> (getShouldOutputImageSequence s \<and> getOutputCodecOrUndefined s \<noteq> None) \<longrightarrow>
        render s l h = emit (codec_warnings s l h) (overwrite_stage s l h)
        \<and> overwrite_stage s l (h\<lparr>ffmpegHasFeature := f\<rparr>) = overwrite_stage s l h
        \<and> (\<forall>e \<in> set (codec_warnings s l h).
              (\<exists>x. e = CallFfmpegHasFeature x) \<or> is_feature_warning e)
        \<and> (codec_of s l = VP8 \<and> \<not> ffmpegHasFeature h ''enable-libvpx'' \<longrightarrow>
              ConsoleLog Vp8WithoutLibvpx \<in> set (trace (render s l h)))
        \<and> (codec_of s l = H265 \<and> \<not> ffmpegHasFeature h ''enable-gpl'' \<longrightarrow>
              ConsoleLog H265WithoutGpl \<in> set (trace (render s l h)))
        \<and> (codec_of s l = H265 \<and> \<not> ffmpegHasFeature h ''enable-libx265'' \<longrightarrow>
              ConsoleLog H265WithoutLibx265 \<in> set (trace (render s l h))))"
proof (cases "getShouldOutputImageSequence s \<and> getOutputCodecOrUndefined s \<noteq> None")
  case True
  then show ?thesis by (simp add: render_def)
next
  case False
  have shape: "render s l h' = emit (codec_warnings s l h') (overwrite_stage s l h')" for h'
    using False by (auto simp: render_def)
  have logs: "codec_of s l = VP8 \<and> \<not> ffmpegHasFeature h ''enable-libvpx'' \<longrightarrow>
                ConsoleLog Vp8WithoutLibvpx \<in> set (codec_warnings s l h)"
       "codec_of s l = H265 \<and> \<not> ffmpegHasFeature h ''enable-gpl'' \<longrightarrow>
                ConsoleLog H265WithoutGpl \<in> set (codec_warnings s l h)"
       "codec_of s l = H265 \<and> \<not> ffmpegHasFeature h ''enable-libx265'' \<longrightarrow>
                ConsoleLog H265WithoutLibx265 \<in> set (codec_warnings s l h)"
    by (simp_all add: codec_warnings_def)
  show ?thesis
    using False logs codec_warnings_quiet [of _ s l h]
    by (simp add: shape feature_overwrite warnings_filtered)
qed

theorem codec_feature_check_is_advisory_witness:
  "\<not> (getShouldOutputImageSequence (example_settings\<lparr>getOutputCodecOrUndefined := Some VP8\<rparr>)
        \<and> getOutputCodecOrUndefined (example_settings\<lparr>getOutputCodecOrUndefined := Some VP8\<rparr>)
            \<noteq> None)
   \<and> codec_of (example_settings\<lparr>getOutputCodecOrUndefined := Some VP8\<rparr>) example_helpers = VP8
   \<and> \<not> ffmpegHasFeature example_host ''enable-libvpx''
   \<and> ConsoleLog Vp8WithoutLibvpx
       \<in> set (trace (render (example_settings\<lparr>getOutputCodecOrUndefined := Some VP8\<rparr>)
                 example_helpers example_host))
   \<and> outcome (render (example_settings\<lparr>getOutputCodecOrUndefined := Some VP8\<rparr>)
        example_helpers (example_host\<lparr>ffmpegHasFeature := (\<lambda>x. True)\<rparr>))
       = outcome (render (example_settings\<lparr>getOutputCodecOrUndefined := Some VP8\<rparr>)
           example_helpers example_host)"
proof -
  have pre: "\<not> (getShouldOutputImageSequence
                 (example_settings\<lparr>getOutputCodecOrUndefined := Some VP8\<rparr>)
        \<and> getOutputCodecOrUndefined (example_settings\<lparr>getOutputCodecOrUndefined := Some VP8\<rparr>)
            \<noteq> None)"
    "codec_of (example_settings\<lparr>getOutputCodecOrUndefined := Some VP8\<rparr>) example_helpers = VP8"
    "\<not> ffmpegHasFeature example_host ''enable-libvpx''"
    by (simp_all add: example_defs codec_of_def)
  from pre codec_feature_check_is_advisory
    [where s = "example_settings\<lparr>getOutputCodecOrUndefined := Some VP8\<rparr>"
       and l = example_helpers and h = example_host and f = "\<lambda>x. True"]
  show ?thesis by blast
qed

subsection \<open>The debug flag\<close>

lemma same_but_perf_emit:
  "filter (\<lambda>e. e \<noteq> LogPerf) es = filter (\<lambda>e. e \<noteq> LogPerf) es' \<Longrightarrow> same_but_perf r r' \<Longrightarrow>
   same_but_perf (emit es r) (emit es' r')"
  by (simp add: same_but_perf_def)

lemma same_but_perf_refl [simp]: "same_but_perf r r"
  by (simp add: same_but_perf_def)

lemma debug_values [simp]:
  "fullPath (s\<lparr>env_DEBUG := b\<rparr>) l = fullPath s l"
  "codec_of (s\<lparr>env_DEBUG := b\<rparr>) l = codec_of s l"
  "absoluteOutputFile (s\<lparr>env_DEBUG := b\<rparr>) l = absoluteOutputFile s l"
  "crf_of (s\<lparr>env_DEBUG := b\<rparr>) l = crf_of s l"
  "imageFormat_of (s\<lparr>env_DEBUG := b\<rparr>) l = imageFormat_of s l"
  "steps (s\<lparr>env_DEBUG := b\<rparr>) = steps s"
  "render_args_of (s\<lparr>env_DEBUG := b\<rparr>) l bd c i od = render_args_of s l bd c i od"
  "stitch_args_of (s\<lparr>env_DEBUG := b\<rparr>) l c od n = stitch_args_of s l c od n"
  by (simp_all add: value_defs)

lemma debug_cleanup:
  "cleanup_stage (s\<lparr>env_DEBUG := b\<rparr>) l h bd od = cleanup_stage s l h bd od"
  by (simp add: cleanup_stage_def)

lemma debug_stitching:
  "stitching_stage (s\<lparr>env_DEBUG := b\<rparr>) l h bd c od = stitching_stage s l h bd c od"
  by (simp add: stitching_stage_def debug_cleanup split: crf_value.splits)

lemma debug_rendering:
  "same_but_perf (rendering_stage (s\<lparr>env_DEBUG := b\<rparr>) l h bd c i od)
     (rendering_stage s l h bd c i od)"
  by (simp add: rendering_stage_def debug_stitching same_but_perf_emit)

lemma debug_frame_dir:
  "same_but_perf (frame_dir_stage (s\<lparr>env_DEBUG := b\<rparr>) l h bd c i)
     (frame_dir_stage s l h bd c i)"
  by (simp add: frame_dir_stage_def debug_rendering same_but_perf_emit split: option.splits)

lemma debug_packaging:
  "same_but_perf (packaging_stage (s\<lparr>env_DEBUG := b\<rparr>) l h) (packaging_stage s l h)"
  by (simp add: packaging_stage_def debug_frame_dir same_but_perf_emit split: option.splits)

lemma debug_sequence_dir:
  "same_but_perf (sequence_dir_stage (s\<lparr>env_DEBUG := b\<rparr>) l h) (sequence_dir_stage s l h)"
  by (simp add: sequence_dir_stage_def debug_packaging same_but_perf_emit)

lemma debug_pixel_format:
  "same_but_perf (pixel_format_stage (s\<lparr>env_DEBUG := b\<rparr>) l h) (pixel_format_stage s l h)"
  by (simp add: pixel_format_stage_def debug_sequence_dir same_but_perf_emit)

lemma debug_crf:
  "same_but_perf (crf_stage (s\<lparr>env_DEBUG := b\<rparr>) l h) (crf_stage s l h)"
  by (simp add: crf_stage_def debug_pixel_format same_but_perf_emit split: crf_value.splits)

lemma debug_ffmpeg:
  "same_but_perf (ffmpeg_stage (s\<lparr>env_DEBUG := b\<rparr>) l h) (ffmpeg_stage s l h)"
  by (simp add: ffmpeg_stage_def debug_crf same_but_perf_emit)

lemma debug_overwrite:
  "same_but_perf (overwrite_stage (s\<lparr>env_DEBUG := b\<rparr>) l h) (overwrite_stage s l h)"
  by (simp add: overwrite_stage_def debug_ffmpeg same_but_perf_emit)

lemma debug_warnings:
  "codec_warnings (s\<lparr>env_DEBUG := b\<rparr>) l h = codec_warnings s l h"
  by (simp add: codec_warnings_def)

lemma debug_render:
  "same_but_perf (render (s\<lparr>env_DEBUG := b\<rparr>) l h) (render s l h)"
  by (auto simp: render_def debug_overwrite debug_warnings same_but_perf_emit)

text \<open>
  C8. Setting the debug flag to any value leaves the outcome of a run unchanged, and leaves
  its trace unchanged once the emissions of the performance counters are taken out: the
  same events in the same order, hence the same stages, the same calls on storage and the
  same terminal result.
\<close>

theorem debug_flag_only_adds_perf_log:
  "outcome (render (s\<lparr>env_DEBUG := b\<rparr>) l h) = outcome (render s l h)
   \<and> filter (\<lambda>e. e \<noteq> LogPerf) (trace (render (s\<lparr>env_DEBUG := b\<rparr>) l h))
     = filter (\<lambda>e. e \<noteq> LogPerf) (trace (render s l h))"
  using debug_render [where s = s and b = b and l = l and h = h]
  by (simp add: same_but_perf_def)


theorem debug_flag_only_adds_perf_log_witness:
  "outcome (render (example_settings\<lparr>env_DEBUG := True\<rparr>) example_helpers example_host)
     = outcome (render example_settings example_helpers example_host)
   \<and> filter (\<lambda>e. e \<noteq> LogPerf)
       (trace (render (example_settings\<lparr>env_DEBUG := True\<rparr>) example_helpers example_host))
     = filter (\<lambda>e. e \<noteq> LogPerf)
         (trace (render example_settings example_helpers example_host))"
  using debug_flag_only_adds_perf_log
    [where s = example_settings and b = True and l = example_helpers and h = example_host]
  by simp

subsection \<open>Rendering before stitching\<close>
















subsection \<open>The temporary frame directory\<close>

lemma frame_dir_guarded_tail:
  "\<not> getShouldOutputImageSequence s \<Longrightarrow>
   guarded creates_frame_dir is_get_compositions (trace (packaging_stage s l h))"
  by (simp add: tail_defs split: option.splits crf_value.splits)

lemma frame_dir_guarded_front:
  "\<not> getShouldOutputImageSequence s \<Longrightarrow>
   guarded creates_frame_dir is_get_compositions (trace (overwrite_stage s l h))"
  by (simp add: front_defs frame_dir_guarded_tail split: crf_value.splits)

lemma warnings_no_frame_dir:
  "\<forall>e \<in> set (codec_warnings s l h). \<not> creates_frame_dir e \<and> \<not> is_get_compositions e"
  by (auto simp: codec_warnings_def split: if_splits)

lemma frame_dir_guarded:
  "\<not> getShouldOutputImageSequence s \<Longrightarrow>
   guarded creates_frame_dir is_get_compositions (trace (render s l h))"
  by (auto simp: render_def frame_dir_guarded_front guarded_append warnings_no_frame_dir)

lemma frame_dir_resolved_tail:
  "\<not> getShouldOutputImageSequence s \<Longrightarrow>
   \<exists>e \<in> set (trace (packaging_stage s l h)). creates_frame_dir e \<Longrightarrow>
   \<exists>bd comps config. bundler h (fullPath s l) = Some bd \<and> getCompositions h bd = Some comps
        \<and> find (\<lambda>c. comp_id c = getCompositionId l comps) comps = Some config"
  by (auto simp: tail_defs split: option.splits crf_value.splits if_splits)

lemma frame_dir_resolved_front:
  "\<not> getShouldOutputImageSequence s \<Longrightarrow>
   \<exists>e \<in> set (trace (overwrite_stage s l h)). creates_frame_dir e \<Longrightarrow>
   \<exists>e \<in> set (trace (packaging_stage s l h)). creates_frame_dir e"
  by (auto simp: front_defs split: option.splits crf_value.splits if_splits)

lemma not_found_tail:
  "\<not> getShouldOutputImageSequence s \<Longrightarrow>
   outcome (packaging_stage s l h) = Failed (CompositionNotFound i) \<Longrightarrow>
   (\<exists>bd. bundler h (fullPath s l) = Some bd) \<and> CallBundle (fullPath s l) \<in> set (trace (packaging_stage s l h))
   \<and> (\<forall>e \<in> set (trace (packaging_stage s l h)). \<not> creates_frame_dir e)"
  by (auto simp: tail_defs split: option.splits crf_value.splits if_splits)

lemma not_found_front:
  "\<not> getShouldOutputImageSequence s \<Longrightarrow>
   outcome (overwrite_stage s l h) = Failed (CompositionNotFound i) \<Longrightarrow>
   outcome (packaging_stage s l h) = Failed (CompositionNotFound i)
   \<and> set (trace (packaging_stage s l h)) \<subseteq> set (trace (overwrite_stage s l h))
   \<and> (\<forall>e \<in> set (trace (overwrite_stage s l h)).
         e \<in> set (trace (packaging_stage s l h)) \<or> \<not> creates_frame_dir e)"
  by (auto simp: front_defs split: option.splits crf_value.splits if_splits)

text \<open>
  C10. In video mode, every event that creates a directory for frames comes after the call
  of \<^verbatim>\<open>getCompositions\<close>, and such an event is in the trace only if packaging succeeded, the
  list of compositions was returned and the requested identifier was found in it. A
  video-mode run that fails with "composition not found" has called the packaging
  collaborator, which returned its artifact directory, and has created no directory for
  frames.
\<close>

theorem frame_dir_after_composition_resolution:
  assumes video: "\<not> getShouldOutputImageSequence s"
  shows "(\<forall>i. i < length (trace (render s l h)) \<and> creates_frame_dir (trace (render s l h) ! i) \<longrightarrow>
            (\<exists>j<i. is_get_compositions (trace (render s l h) ! j)))
     \<and> ((\<exists>e \<in> set (trace (render s l h)). creates_frame_dir e) \<longrightarrow>
            (\<exists>bd comps config. bundler h (fullPath s l) = Some bd
               \<and> getCompositions h bd = Some comps
               \<and> find (\<lambda>c. comp_id c = getCompositionId l comps) comps = Some config))
     \<and> (\<forall>i. outcome (render s l h) = Failed (CompositionNotFound i) \<longrightarrow>
            (\<exists>bd. bundler h (fullPath s l) = Some bd)
            \<and> CallBundle (fullPath s l) \<in> set (trace (render s l h))
            \<and> (\<forall>e \<in> set (trace (render s l h)). \<not> creates_frame_dir e))"
proof -
  have shape: "render s l h = emit (codec_warnings s l h) (overwrite_stage s l h)"
    using video by (simp add: render_def)
  have a: "\<forall>i. i < length (trace (render s l h)) \<and> creates_frame_dir (trace (render s l h) ! i) \<longrightarrow>
            (\<exists>j<i. is_get_compositions (trace (render s l h) ! j))"
    using guarded_nth [OF frame_dir_guarded [OF video, of l h]] by blast
  have b: "\<exists>bd comps config. bundler h (fullPath s l) = Some bd
               \<and> getCompositions h bd = Some comps
               \<and> find (\<lambda>c. comp_id c = getCompositionId l comps) comps = Some config"
    if "\<exists>e \<in> set (trace (render s l h)). creates_frame_dir e"
  proof -
    from that warnings_no_frame_dir [of s l h]
    have "\<exists>e \<in> set (trace (overwrite_stage s l h)). creates_frame_dir e"
      by (auto simp: shape)
    from frame_dir_resolved_tail [OF video frame_dir_resolved_front [OF video this]]
    show ?thesis .
  qed
  have c: "(\<exists>bd. bundler h (fullPath s l) = Some bd)
            \<and> CallBundle (fullPath s l) \<in> set (trace (render s l h))
            \<and> (\<forall>e \<in> set (trace (render s l h)). \<not> creates_frame_dir e)"
    if "outcome (render s l h) = Failed (CompositionNotFound i)" for i
  proof -
    from that have "outcome (overwrite_stage s l h) = Failed (CompositionNotFound i)"
      by (simp add: shape)
    from not_found_front [OF video this]
    have f1: "outcome (packaging_stage s l h) = Failed (CompositionNotFound i)"
      and f2: "set (trace (packaging_stage s l h)) \<subseteq> set (trace (overwrite_stage s l h))"
      and f3: "\<forall>e \<in> set (trace (overwrite_stage s l h)).
                 e \<in> set (trace (packaging_stage s l h)) \<or> \<not> creates_frame_dir e"
      by blast+
    from not_found_tail [OF video f1]
    have t1: "\<exists>bd. bundler h (fullPath s l) = Some bd"
      and t2: "CallBundle (fullPath s l) \<in> set (trace (packaging_stage s l h))"
      and t3: "\<forall>e \<in> set (trace (packaging_stage s l h)). \<not> creates_frame_dir e"
      by blast+
    from f2 t2 have "CallBundle (fullPath s l) \<in> set (trace (render s l h))"
      by (auto simp: shape)
    moreover from f3 t3 warnings_no_frame_dir [of s l h]
    have "\<forall>e \<in> set (trace (render s l h)). \<not> creates_frame_dir e"
      by (auto simp: shape)
    ultimately show ?thesis using t1 by blast
  qed
  from a b c show ?thesis by blast
qed

theorem frame_dir_after_composition_resolution_witness:
  "\<not> getShouldOutputImageSequence example_settings
   \<and> outcome (render example_settings example_helpers
        (example_host\<lparr>getCompositions := (\<lambda>b. Some [])\<rparr>))
       = Failed (CompositionNotFound ''HelloWorld'')
   \<and> CallBundle (fullPath example_settings example_helpers)
       \<in> set (trace (render example_settings example_helpers
                 (example_host\<lparr>getCompositions := (\<lambda>b. Some [])\<rparr>)))
   \<and> filter creates_frame_dir (trace (render example_settings example_helpers
                 (example_host\<lparr>getCompositions := (\<lambda>b. Some [])\<rparr>))) = []"
proof -
  have pre: "outcome (render example_settings example_helpers
        (example_host\<lparr>getCompositions := (\<lambda>b. Some [])\<rparr>))
       = Failed (CompositionNotFound ''HelloWorld'')"
    by (simp add: stage_defs value_defs example_defs validateSelectedCrfAndCodecCombination_def)
  with example_video frame_dir_after_composition_resolution
    [where s = example_settings and l = example_helpers
       and h = "example_host\<lparr>getCompositions := (\<lambda>b. Some [])\<rparr>"]
  show ?thesis unfolding filter_empty_conv by blast
qed

subsection \<open>The encoder-availability check\<close>

lemma no_ffmpeg_check_tail: "CallValidateFfmpeg \<notin> set (trace (packaging_stage s l h))"
  by (simp add: tail_defs split: option.splits crf_value.splits)

lemma no_ffmpeg_check_crf: "CallValidateFfmpeg \<notin> set (trace (crf_stage s l h))"
  by (simp add: crf_stage_def pixel_format_stage_def sequence_dir_stage_def
      no_ffmpeg_check_tail split: crf_value.splits)

lemma warnings_no_ffmpeg_check:
  "\<forall>e \<in> set (codec_warnings s l h). \<not> is_get_actual_crf e \<and> e \<noteq> CallValidateFfmpeg"
  by (auto simp: codec_warnings_def split: if_splits)

text \<open>
  C9 as stated fails: a video-mode run whose output already exists, with the overwrite flag
  off, exits at the overwrite check and never calls \<^verbatim>\<open>validateFfmpeg\<close>.
\<close>

theorem existing_output_skips_ffmpeg_validation:
  "\<not> getShouldOutputImageSequence example_settings
   \<and> count_list (trace (render example_settings example_helpers
        existing_output_host)) CallValidateFfmpeg = 0
   \<and> outcome (render example_settings example_helpers
        existing_output_host) = Exited 1"
  by (simp add: stage_defs value_defs example_defs)

text \<open>
  C9, amended. In image-sequence mode \<^verbatim>\<open>validateFfmpeg\<close> is never called. A video-mode run
  stopped by the overwrite check does not call it either. Every video-mode run that passes
  the overwrite check calls it exactly once, and every resolution of the CRF
  (\<^verbatim>\<open>getActualCrf\<close>) in the trace comes after that call.
\<close>

theorem ffmpeg_validated_once_after_overwrite_check:
  "(getShouldOutputImageSequence s \<longrightarrow> CallValidateFfmpeg \<notin> set (trace (render s l h)))
   \<and> (\<not> getShouldOutputImageSequence s
        \<and> existsSync h (absoluteOutputFile s l) \<and> \<not> getShouldOverwrite s \<longrightarrow>
        CallValidateFfmpeg \<notin> set (trace (render s l h)))
   \<and> (\<not> getShouldOutputImageSequence s
        \<and> \<not> (existsSync h (absoluteOutputFile s l) \<and> \<not> getShouldOverwrite s) \<longrightarrow>
        count_list (trace (render s l h)) CallValidateFfmpeg = 1
        \<and> (\<forall>i. i < length (trace (render s l h))
                 \<and> is_get_actual_crf (trace (render s l h) ! i) \<longrightarrow>
               (\<exists>j<i. trace (render s l h) ! j = CallValidateFfmpeg)))"
proof -
  have w: "CallValidateFfmpeg \<notin> set (codec_warnings s l h)"
    using warnings_no_ffmpeg_check [of s l h] by blast
  have a: "CallValidateFfmpeg \<notin> set (trace (render s l h))"
    if "getShouldOutputImageSequence s"
    using that w no_ffmpeg_check_crf [of s l h]
    by (auto simp: render_def overwrite_stage_def ffmpeg_stage_def)
  have b: "CallValidateFfmpeg \<notin> set (trace (render s l h))"
    if "\<not> getShouldOutputImageSequence s"
      "existsSync h (absoluteOutputFile s l)" "\<not> getShouldOverwrite s"
    using that w by (simp add: render_def overwrite_stage_def)
  have c: "count_list (trace (render s l h)) CallValidateFfmpeg = 1
        \<and> (\<forall>i. i < length (trace (render s l h))
                 \<and> is_get_actual_crf (trace (render s l h) ! i) \<longrightarrow>
               (\<exists>j<i. trace (render s l h) ! j = CallValidateFfmpeg))"
    if video: "\<not> getShouldOutputImageSequence s"
      and pass: "\<not> (existsSync h (absoluteOutputFile s l) \<and> \<not> getShouldOverwrite s)"
  proof -
    have shape: "trace (render s l h) =
        codec_warnings s l h @ CallValidateFfmpeg
          # (if validateFfmpeg h then trace (crf_stage s l h) else [])"
      using video pass by (simp add: render_def overwrite_stage_def ffmpeg_stage_def)
    have "count_list (codec_warnings s l h) CallValidateFfmpeg = 0"
      using w by (simp add: count_list_0_iff)
    moreover have "count_list (trace (crf_stage s l h)) CallValidateFfmpeg = 0"
      using no_ffmpeg_check_crf [of s l h] by (simp add: count_list_0_iff)
    ultimately have n: "count_list (trace (render s l h)) CallValidateFfmpeg = 1"
      by (simp add: shape)
    have "guarded is_get_actual_crf (\<lambda>e. e = CallValidateFfmpeg) (trace (render s l h))"
      using warnings_no_ffmpeg_check [of s l h] by (simp add: shape guarded_append)
    from guarded_nth [OF this] n show ?thesis by blast
  qed
  from a b c show ?thesis by blast
qed

theorem ffmpeg_validated_once_after_overwrite_check_witness:
  "\<not> getShouldOutputImageSequence example_settings
   \<and> \<not> (existsSync example_host (absoluteOutputFile example_settings example_helpers)
         \<and> \<not> getShouldOverwrite example_settings)
   \<and> count_list (trace (render example_settings example_helpers example_host))
        CallValidateFfmpeg = 1"
proof -
  have pre: "\<not> (existsSync example_host (absoluteOutputFile example_settings example_helpers)
         \<and> \<not> getShouldOverwrite example_settings)"
    by (simp add: example_defs)
  with example_video ffmpeg_validated_once_after_overwrite_check
    [where s = example_settings and l = example_helpers and h = example_host]
  show ?thesis by blast
qed

subsection \<open>Disposal of the ephemeral directories\<close>







subsection \<open>The CRF value\<close>













text \<open>
  The type error of line 175 is reached only when \<^verbatim>\<open>getActualCrf\<close> returns something that
  is not a number: with \<^verbatim>\<open>null\<close>, the validation is skipped, the frames are rendered and the
  run stops at the start of the Stitching stage.
\<close>

lemma null_crf_is_a_type_error:
  "outcome (render example_settings null_crf_helpers example_host) = Failed CrfNotANumber
   \<and> filter is_encoder_call (trace (render example_settings null_crf_helpers example_host)) = []
   \<and> RenderFramesReturned \<in> set (trace (render example_settings null_crf_helpers example_host))"
  by (simp add: stage_defs value_defs example_defs)

lemma crf_ranges:
  "validateSelectedCrfAndCodecCombination n H264 \<longleftrightarrow> 0 \<le> n \<and> n \<le> 51"
  "validateSelectedCrfAndCodecCombination n H265 \<longleftrightarrow> 0 \<le> n \<and> n \<le> 51"
  "validateSelectedCrfAndCodecCombination n VP8 \<longleftrightarrow> 4 \<le> n \<and> n \<le> 63"
  "validateSelectedCrfAndCodecCombination n VP9 \<longleftrightarrow> 0 \<le> n \<and> n \<le> 63"
  by (auto simp: validateSelectedCrfAndCodecCombination_def)

lemma crf_checked_first:
  "\<not> getShouldOutputImageSequence s \<Longrightarrow> crf_of s l = CrfNumber m \<Longrightarrow>
   guarded is_rendering_work (\<lambda>e. e = CallValidateCrf (CrfNumber m) (codec_of s l))
     (trace (overwrite_stage s l h))"
  by (simp add: front_defs is_rendering_work_def)

lemma invalid_crf_front:
  "\<not> getShouldOutputImageSequence s \<Longrightarrow> crf_of s l = CrfNumber m \<Longrightarrow>
   \<not> validateSelectedCrfAndCodecCombination m (codec_of s l) \<Longrightarrow>
   (\<forall>e \<in> set (trace (overwrite_stage s l h)). \<not> is_rendering_work e)
   \<and> (CallValidateCrf (CrfNumber m) (codec_of s l) \<in> set (trace (overwrite_stage s l h)) \<longrightarrow>
        outcome (overwrite_stage s l h) = Failed InvalidCrf)"
  by (simp add: front_defs is_rendering_work_def)

lemma no_invalid_crf_tail: "outcome (packaging_stage s l h) \<noteq> Failed InvalidCrf"
  by (simp add: tail_defs split: option.splits crf_value.splits)

lemma valid_crf_front:
  "\<not> getShouldOutputImageSequence s \<Longrightarrow> crf_of s l = CrfNumber m \<Longrightarrow>
   validateSelectedCrfAndCodecCombination m (codec_of s l) \<Longrightarrow>
   outcome (overwrite_stage s l h) \<noteq> Failed InvalidCrf"
  by (simp add: front_defs no_invalid_crf_tail)

lemma warnings_no_work:
  "\<forall>e \<in> set (codec_warnings s l h). \<not> is_rendering_work e \<and> (\<forall>v c. e \<noteq> CallValidateCrf v c)"
  by (auto simp: codec_warnings_def is_rendering_work_def split: if_splits)

text \<open>
  C4. The validator accepts a CRF exactly in the documented range of the codec (h264 0-51,
  h265 0-51, vp8 4-63, vp9 0-63); for h264 it rejects -1 and 52 and accepts 0 and 51. In a
  video-mode run with a numeric CRF, every collaborator call and every event on storage
  comes after the call of the validator and occurs only if the CRF is in range; a call of
  the validator with an out-of-range CRF ends the run with the invalid-CRF failure; an
  in-range CRF never does.
\<close>

theorem crf_validated_before_rendering:
  "(validateSelectedCrfAndCodecCombination n H264 \<longleftrightarrow> 0 \<le> n \<and> n \<le> 51)
   \<and> (validateSelectedCrfAndCodecCombination n H265 \<longleftrightarrow> 0 \<le> n \<and> n \<le> 51)
   \<and> (validateSelectedCrfAndCodecCombination n VP8 \<longleftrightarrow> 4 \<le> n \<and> n \<le> 63)
   \<and> (validateSelectedCrfAndCodecCombination n VP9 \<longleftrightarrow> 0 \<le> n \<and> n \<le> 63)
   \<and> \<not> validateSelectedCrfAndCodecCombination (- 1) H264
   \<and> \<not> validateSelectedCrfAndCodecCombination 52 H264
   \<and> validateSelectedCrfAndCodecCombination 0 H264
   \<and> validateSelectedCrfAndCodecCombination 51 H264
   \<and> (\<not> getShouldOutputImageSequence s \<and> crf_of s l = CrfNumber m \<longrightarrow>
        (\<forall>i. i < length (trace (render s l h)) \<and> is_rendering_work (trace (render s l h) ! i) \<longrightarrow>
           (\<exists>j<i. trace (render s l h) ! j = CallValidateCrf (CrfNumber m) (codec_of s l))
           \<and> validateSelectedCrfAndCodecCombination m (codec_of s l))
        \<and> (\<not> validateSelectedCrfAndCodecCombination m (codec_of s l)
             \<and> CallValidateCrf (CrfNumber m) (codec_of s l) \<in> set (trace (render s l h)) \<longrightarrow>
             outcome (render s l h) = Failed InvalidCrf)
        \<and> (validateSelectedCrfAndCodecCombination m (codec_of s l) \<longrightarrow>
             outcome (render s l h) \<noteq> Failed InvalidCrf))"
proof -
  have run: "(\<forall>i. i < length (trace (render s l h)) \<and> is_rendering_work (trace (render s l h) ! i) \<longrightarrow>
           (\<exists>j<i. trace (render s l h) ! j = CallValidateCrf (CrfNumber m) (codec_of s l))
           \<and> validateSelectedCrfAndCodecCombination m (codec_of s l))
        \<and> (\<not> validateSelectedCrfAndCodecCombination m (codec_of s l)
             \<and> CallValidateCrf (CrfNumber m) (codec_of s l) \<in> set (trace (render s l h)) \<longrightarrow>
             outcome (render s l h) = Failed InvalidCrf)
        \<and> (validateSelectedCrfAndCodecCombination m (codec_of s l) \<longrightarrow>
             outcome (render s l h) \<noteq> Failed InvalidCrf)"
    if video: "\<not> getShouldOutputImageSequence s" and num: "crf_of s l = CrfNumber m"
  proof -
    have shape: "render s l h = emit (codec_warnings s l h) (overwrite_stage s l h)"
      using video by (simp add: render_def)
    have g: "guarded is_rendering_work (\<lambda>e. e = CallValidateCrf (CrfNumber m) (codec_of s l))
               (trace (render s l h))"
      using warnings_no_work [of s l h] crf_checked_first [OF video num, of h]
      by (simp add: shape guarded_append)
    have order: "\<exists>j<i. trace (render s l h) ! j = CallValidateCrf (CrfNumber m) (codec_of s l)"
      if "i < length (trace (render s l h))" "is_rendering_work (trace (render s l h) ! i)" for i
      using guarded_nth [OF g that] .
    have valid: "validateSelectedCrfAndCodecCombination m (codec_of s l)"
      if "i < length (trace (render s l h))" "is_rendering_work (trace (render s l h) ! i)" for i
    proof (rule ccontr)
      assume bad: "\<not> validateSelectedCrfAndCodecCombination m (codec_of s l)"
      from invalid_crf_front [OF video num bad, of h] warnings_no_work [of s l h]
      have "\<forall>e \<in> set (trace (render s l h)). \<not> is_rendering_work e"
        by (auto simp: shape)
      with that show False using nth_mem by blast
    qed
    have fatal: "outcome (render s l h) = Failed InvalidCrf"
      if bad: "\<not> validateSelectedCrfAndCodecCombination m (codec_of s l)"
        and called: "CallValidateCrf (CrfNumber m) (codec_of s l) \<in> set (trace (render s l h))"
      using invalid_crf_front [OF video num bad, of h] called warnings_no_work [of s l h]
      by (auto simp: shape)
    have fine: "outcome (render s l h) \<noteq> Failed InvalidCrf"
      if "validateSelectedCrfAndCodecCombination m (codec_of s l)"
      using valid_crf_front [OF video num that, of h] by (simp add: shape)
    from order valid fatal fine show ?thesis by blast
  qed
  have bounds: "\<not> validateSelectedCrfAndCodecCombination (- 1) H264"
    "\<not> validateSelectedCrfAndCodecCombination 52 H264"
    "validateSelectedCrfAndCodecCombination 0 H264"
    "validateSelectedCrfAndCodecCombination 51 H264"
    by (simp_all add: validateSelectedCrfAndCodecCombination_def)
  from run bounds crf_ranges [of n] show ?thesis by blast
qed

theorem crf_validated_before_rendering_witness:
  "\<not> getShouldOutputImageSequence example_settings
   \<and> crf_of example_settings (example_helpers\<lparr>getActualCrf := (\<lambda>c. CrfNumber 52)\<rparr>)
       = CrfNumber 52
   \<and> \<not> validateSelectedCrfAndCodecCombination 52
         (codec_of example_settings (example_helpers\<lparr>getActualCrf := (\<lambda>c. CrfNumber 52)\<rparr>))
   \<and> CallValidateCrf (CrfNumber 52)
         (codec_of example_settings (example_helpers\<lparr>getActualCrf := (\<lambda>c. CrfNumber 52)\<rparr>))
       \<in> set (trace (render example_settings
                 (example_helpers\<lparr>getActualCrf := (\<lambda>c. CrfNumber 52)\<rparr>) example_host))
   \<and> outcome (render example_settings
        (example_helpers\<lparr>getActualCrf := (\<lambda>c. CrfNumber 52)\<rparr>) example_host)
       = Failed InvalidCrf"
proof -
  have num: "crf_of example_settings (example_helpers\<lparr>getActualCrf := (\<lambda>c. CrfNumber 52)\<rparr>)
       = CrfNumber 52"
    by (simp add: crf_of_def example_defs)
  have bad: "\<not> validateSelectedCrfAndCodecCombination 52
         (codec_of example_settings (example_helpers\<lparr>getActualCrf := (\<lambda>c. CrfNumber 52)\<rparr>))"
    by (simp add: codec_of_def example_defs validateSelectedCrfAndCodecCombination_def)
  have called: "CallValidateCrf (CrfNumber 52)
         (codec_of example_settings (example_helpers\<lparr>getActualCrf := (\<lambda>c. CrfNumber 52)\<rparr>))
       \<in> set (trace (render example_settings
                 (example_helpers\<lparr>getActualCrf := (\<lambda>c. CrfNumber 52)\<rparr>) example_host))"
    by (simp add: stage_defs value_defs example_defs validateSelectedCrfAndCodecCombination_def)
  from example_video num bad called crf_validated_before_rendering
    [where s = example_settings
       and l = "example_helpers\<lparr>getActualCrf := (\<lambda>c. CrfNumber 52)\<rparr>"
       and h = example_host and m = 52 and n = 0]
  show ?thesis by blast
qed

end
